theory Spec2Isabelle
  imports Complex_Main "HOL-Library.AList"
begin

section \<open>Python values\<close>

text \<open>
  The values that travel through \<^verbatim>\<open>jdy_sdk.py\<close> are JSON documents (what
  \<^verbatim>\<open>Response.json()\<close> and \<^verbatim>\<open>json.loads\<close> return) and the tokens cut out of them.
  A dict is an association list in insertion order; \<^verbatim>\<open>d[k] = v\<close> is \<open>AList.update\<close>
  (an existing key keeps its position, a new one is appended, as in Python).
  Floats are left out of the value space: every number is an unbounded \<open>int\<close>.
\<close>

datatype pyval =
    PNone
  | PBool bool
  | PInt int
  | PStr string
  | PList "pyval list"
  | PDict "(string \<times> pyval) list"

text \<open>Python truth value testing (\<^verbatim>\<open>if x:\<close>, \<^verbatim>\<open>not x\<close>).\<close>

fun truthy :: "pyval \<Rightarrow> bool" where
  "truthy PNone = False"
| "truthy (PBool b) = b"
| "truthy (PInt n) = (n \<noteq> 0)"
| "truthy (PStr s) = (s \<noteq> [])"
| "truthy (PList xs) = (xs \<noteq> [])"
| "truthy (PDict d) = (d \<noteq> [])"

text \<open>\<^verbatim>\<open>a == b\<close>: \<^verbatim>\<open>bool\<close> is a subclass of \<^verbatim>\<open>int\<close>, so \<^verbatim>\<open>False == 0\<close> and \<^verbatim>\<open>True == 1\<close>.\<close>

fun py_eq :: "pyval \<Rightarrow> pyval \<Rightarrow> bool" where
  "py_eq (PBool b) (PInt n) = (n = (if b then 1 else 0))"
| "py_eq (PInt n) (PBool b) = (n = (if b then 1 else 0))"
| "py_eq a b = (a = b)"

text \<open>The exceptions the module raises itself or lets through.
  \<open>JDYClientException\<close> carries \<^verbatim>\<open>errcode\<close> and \<^verbatim>\<open>errmsg\<close>; its \<^verbatim>\<open>client\<close>,
  \<^verbatim>\<open>request\<close> and \<^verbatim>\<open>response\<close> attributes are diagnostic references and are not
  carried, but the evaluation of the expressions that fill them is modelled.
  \<open>StrOf v\<close> stands for the text \<^verbatim>\<open>str(v)\<close>, which is not computed.\<close>

datatype msg = Msg pyval | StrOf pyval

datatype exn =
    JDYClientException pyval msg
  | NotImplementedError
  | KeyError string
  | TypeError
  | ValueError
  | AttributeError string
  | RequestException
  | JSONDecodeError

definition ebind :: "exn + 'a \<Rightarrow> ('a \<Rightarrow> exn + 'b) \<Rightarrow> exn + 'b" where
  "ebind m f = (case m of Inl e \<Rightarrow> Inl e | Inr x \<Rightarrow> f x)"

text \<open>\<^verbatim>\<open>s.startswith(p)\<close> and \<^verbatim>\<open>p in s\<close> on strings.\<close>

definition startswith :: "string \<Rightarrow> string \<Rightarrow> bool" where
  "startswith s p = (take (length p) s = p)"

fun is_substring :: "string \<Rightarrow> string \<Rightarrow> bool" where
  "is_substring p [] = (p = [])"
| "is_substring p (c # cs) = (take (length p) (c # cs) = p \<or> is_substring p cs)"

text \<open>\<^verbatim>\<open>key in obj\<close> for a string key: dict membership is on keys, list membership on
  elements, string membership is substring search; anything else is not iterable.\<close>

fun py_contains :: "string \<Rightarrow> pyval \<Rightarrow> exn + bool" where
  "py_contains k (PDict d) = Inr (map_of d k \<noteq> None)"
| "py_contains k (PList xs) = Inr (PStr k \<in> set xs)"
| "py_contains k (PStr s) = Inr (is_substring k s)"
| "py_contains k v = Inl TypeError"

text \<open>\<^verbatim>\<open>obj[key]\<close>, \<^verbatim>\<open>obj[key] = v\<close> and \<^verbatim>\<open>obj.get(key, default)\<close> for a string key.\<close>

fun py_getitem :: "pyval \<Rightarrow> string \<Rightarrow> exn + pyval" where
  "py_getitem (PDict d) k = (case map_of d k of None \<Rightarrow> Inl (KeyError k) | Some v \<Rightarrow> Inr v)"
| "py_getitem v k = Inl TypeError"

fun py_setitem :: "pyval \<Rightarrow> string \<Rightarrow> pyval \<Rightarrow> exn + pyval" where
  "py_setitem (PDict d) k v = Inr (PDict (AList.update k v d))"
| "py_setitem x k v = Inl TypeError"

fun py_get :: "pyval \<Rightarrow> string \<Rightarrow> pyval \<Rightarrow> exn + pyval" where
  "py_get (PDict d) k dflt = Inr (case map_of d k of None \<Rightarrow> dflt | Some v \<Rightarrow> v)"
| "py_get x k dflt = Inl (AttributeError ''get'')"

text \<open>\<^verbatim>\<open>int(x)\<close>. On a string: surrounding whitespace is stripped, one sign is allowed,
  and the digits may be grouped by single underscores (ASCII only).\<close>

definition is_space :: "char \<Rightarrow> bool" where
  "is_space c = (c \<in> set [CHR '' '', CHR 0x09, CHR 0x0A, CHR 0x0B, CHR 0x0C, CHR 0x0D,
                           CHR 0x1C, CHR 0x1D, CHR 0x1E, CHR 0x1F])"

definition is_digit :: "char \<Rightarrow> bool" where
  "is_digit c = (48 \<le> (of_char c :: nat) \<and> (of_char c :: nat) \<le> 57)"

definition strip :: "string \<Rightarrow> string" where
  "strip s = rev (dropWhile is_space (rev (dropWhile is_space s)))"

fun digits_value :: "int \<Rightarrow> string \<Rightarrow> int option" where
  "digits_value acc [] = Some acc"
| "digits_value acc [c] =
     (if is_digit c then Some (10 * acc + ((of_char c :: int) - 48)) else None)"
| "digits_value acc (c # d # cs) =
     (if is_digit c then
        (if d = CHR ''_'' then
           (case cs of [] \<Rightarrow> None
            | e # es \<Rightarrow> if is_digit e then digits_value (10 * acc + ((of_char c :: int) - 48)) cs else None)
         else digits_value (10 * acc + ((of_char c :: int) - 48)) (d # cs))
      else None)"

definition int_of_str :: "string \<Rightarrow> exn + int" where
  "int_of_str s =
     (case strip s of
        [] \<Rightarrow> Inl ValueError
      | c # cs \<Rightarrow>
          (if c = CHR ''-'' then
             (case cs of [] \<Rightarrow> Inl ValueError
              | _ \<Rightarrow> (case digits_value 0 cs of None \<Rightarrow> Inl ValueError | Some n \<Rightarrow> Inr (- n)))
           else if c = CHR ''+'' then
             (case cs of [] \<Rightarrow> Inl ValueError
              | _ \<Rightarrow> (case digits_value 0 cs of None \<Rightarrow> Inl ValueError | Some n \<Rightarrow> Inr n))
           else (case digits_value 0 (c # cs) of None \<Rightarrow> Inl ValueError | Some n \<Rightarrow> Inr n)))"

fun py_int :: "pyval \<Rightarrow> exn + int" where
  "py_int (PInt n) = Inr n"
| "py_int (PBool b) = Inr (if b then 1 else 0)"
| "py_int (PStr s) = int_of_str s"
| "py_int v = Inl TypeError"

text \<open>\<^verbatim>\<open>n + x\<close> for an int \<open>n\<close>.\<close>

fun py_int_add :: "int \<Rightarrow> pyval \<Rightarrow> exn + int" where
  "py_int_add n (PInt m) = Inr (n + m)"
| "py_int_add n (PBool b) = Inr (n + (if b then 1 else 0))"
| "py_int_add n v = Inl TypeError"

section \<open>The world outside the process\<close>

text \<open>
  Two call sites reach the network: \<^verbatim>\<open>self._http.get\<close> in \<^verbatim>\<open>_fetch_access_token\<close>
  and \<^verbatim>\<open>self._http.request\<close> in \<^verbatim>\<open>_request\<close>. Each call is appended to a log, and
  the server answers as a function of the log so far (the call included), so any
  server behaviour is some \<open>server\<close>. \<^verbatim>\<open>time.time()\<close> reads a clock that is a function
  of the number of reads before it; its value is a real number, so the rounding of float
  arithmetic is left out. \<^verbatim>\<open>json.dumps\<close> and \<^verbatim>\<open>json.loads\<close> are library functions and are
  taken as they come.
\<close>

datatype http_call =
    TokenGet string pyval
  | Request string string "pyval option" "pyval option"

datatype http_reply =
    ConnectionFailed
  | BadStatus
  | NotJson
  | Body pyval

record env =
  server :: "http_call list \<Rightarrow> http_reply"
  clock :: "nat \<Rightarrow> real"
  json_dumps :: "pyval \<Rightarrow> string"
  json_loads :: "string \<Rightarrow> exn + pyval"

record world =
  http_log :: "http_call list"
  ticks :: nat

definition http_send :: "env \<Rightarrow> world \<Rightarrow> http_call \<Rightarrow> http_reply \<times> world" where
  "http_send E w c = (server E (http_log w @ [c]), w\<lparr>http_log := http_log w @ [c]\<rparr>)"

definition time_time :: "env \<Rightarrow> world \<Rightarrow> real \<times> world" where
  "time_time E w = (clock E (ticks w), w\<lparr>ticks := Suc (ticks w)\<rparr>)"

text \<open>\<^verbatim>\<open>int(x)\<close> on a float truncates towards zero.\<close>

definition int_of_float :: "real \<Rightarrow> int" where
  "int_of_float r = (if 0 \<le> r then \<lfloor>r\<rfloor> else \<lceil>r\<rceil>)"

section \<open>Session storage\<close>

text \<open>
  \<^verbatim>\<open>SessionStorage\<close> is the base class, \<^verbatim>\<open>MemoryStorage\<close> keeps a dict, and
  \<^verbatim>\<open>RedisStorage\<close> wraps an external object with \<^verbatim>\<open>get\<close>, \<^verbatim>\<open>set\<close>, \<^verbatim>\<open>delete\<close>;
  that object is a key-value store of raw strings which records the \<^verbatim>\<open>ex\<close> argument it
  was given (it does not let entries expire). A raw value is text, or bytes that decode
  to the same characters, so \<^verbatim>\<open>to_text\<close> only has its first two branches.
\<close>

type_synonym redis = "(string \<times> string \<times> pyval) list"

datatype storage =
    SessionStorage
  | MemoryStorage "(string \<times> pyval) list"
  | RedisStorage redis string

definition to_text :: "string \<Rightarrow> string" where
  "to_text v = (if v = [] then [] else v)"

definition key_name :: "string \<Rightarrow> string \<Rightarrow> string" where
  "key_name prefix key = prefix @ '':'' @ key"

definition RedisStorage_get :: "env \<Rightarrow> redis \<Rightarrow> string \<Rightarrow> string \<Rightarrow> pyval \<Rightarrow> exn + pyval" where
  "RedisStorage_get E r prefix key dflt =
     (let k = key_name prefix key in
      case map_of r k of
        None \<Rightarrow> Inr dflt
      | Some (v, ex) \<Rightarrow> json_loads E (to_text v))"

definition RedisStorage_set :: "env \<Rightarrow> redis \<Rightarrow> string \<Rightarrow> string \<Rightarrow> pyval \<Rightarrow> pyval \<Rightarrow> redis" where
  "RedisStorage_set E r prefix key v ttl =
     (if v = PNone then r
      else let k = key_name prefix key; v' = json_dumps E v
           in AList.update k (v', ttl) r)"

definition RedisStorage_delete :: "redis \<Rightarrow> string \<Rightarrow> string \<Rightarrow> redis" where
  "RedisStorage_delete r prefix key = AList.delete (key_name prefix key) r"

definition MemoryStorage_get :: "(string \<times> pyval) list \<Rightarrow> string \<Rightarrow> pyval \<Rightarrow> pyval" where
  "MemoryStorage_get d key dflt = (case map_of d key of None \<Rightarrow> dflt | Some v \<Rightarrow> v)"

definition MemoryStorage_set ::
  "(string \<times> pyval) list \<Rightarrow> string \<Rightarrow> pyval \<Rightarrow> pyval \<Rightarrow> (string \<times> pyval) list" where
  "MemoryStorage_set d key v ttl = (if v = PNone then d else AList.update key v d)"

definition MemoryStorage_delete :: "(string \<times> pyval) list \<Rightarrow> string \<Rightarrow> (string \<times> pyval) list" where
  "MemoryStorage_delete d key = AList.delete key d"

text \<open>Method dispatch on the class of the store.\<close>

fun storage_get :: "env \<Rightarrow> storage \<Rightarrow> string \<Rightarrow> pyval \<Rightarrow> exn + pyval" where
  "storage_get E SessionStorage key dflt = Inl NotImplementedError"
| "storage_get E (MemoryStorage d) key dflt = Inr (MemoryStorage_get d key dflt)"
| "storage_get E (RedisStorage r prefix) key dflt = RedisStorage_get E r prefix key dflt"

fun storage_set :: "env \<Rightarrow> storage \<Rightarrow> string \<Rightarrow> pyval \<Rightarrow> pyval \<Rightarrow> exn + storage" where
  "storage_set E SessionStorage key v ttl = Inl NotImplementedError"
| "storage_set E (MemoryStorage d) key v ttl = Inr (MemoryStorage (MemoryStorage_set d key v ttl))"
| "storage_set E (RedisStorage r prefix) key v ttl =
     Inr (RedisStorage (RedisStorage_set E r prefix key v ttl) prefix)"

fun storage_delete :: "storage \<Rightarrow> string \<Rightarrow> exn + storage" where
  "storage_delete SessionStorage key = Inl NotImplementedError"
| "storage_delete (MemoryStorage d) key = Inr (MemoryStorage (MemoryStorage_delete d key))"
| "storage_delete (RedisStorage r prefix) key = Inr (RedisStorage (RedisStorage_delete r prefix key) prefix)"

text \<open>\<^verbatim>\<open>__getitem__\<close> calls \<^verbatim>\<open>self.get(key)\<close> and has no \<^verbatim>\<open>return\<close>: when the call
  returns, the method's value is \<^verbatim>\<open>None\<close>. \<^verbatim>\<open>__setitem__\<close> and \<^verbatim>\<open>__delitem__\<close>
  forward to \<^verbatim>\<open>set\<close> and \<^verbatim>\<open>delete\<close>.\<close>

definition getitem :: "env \<Rightarrow> storage \<Rightarrow> string \<Rightarrow> exn + pyval" where
  "getitem E s key = (case storage_get E s key PNone of Inl e \<Rightarrow> Inl e | Inr v \<Rightarrow> Inr PNone)"

definition setitem :: "env \<Rightarrow> storage \<Rightarrow> string \<Rightarrow> pyval \<Rightarrow> exn + storage" where
  "setitem E s key v = storage_set E s key v PNone"

definition delitem :: "storage \<Rightarrow> string \<Rightarrow> exn + storage" where
  "delitem s key = storage_delete s key"

section \<open>The client\<close>

text \<open>The attributes \<^verbatim>\<open>__init__\<close> sets. The configuration values are strings.\<close>

record JDYClient =
  client_id :: string
  client_secret :: string
  username :: string
  password :: string
  account_id :: string
  db_id :: string
  expires_at :: "int option"
  session :: storage
  timeout :: pyval
  auto_retry :: bool

type_synonym state = "JDYClient \<times> world"

definition INVALID_CREDENTIAL :: int where
  "INVALID_CREDENTIAL = 4010"

definition API_BASE_URL :: string where
  "API_BASE_URL = ''https://api.kingdee.com''"

definition GET_ACCESS_TOKEN :: string where
  "GET_ACCESS_TOKEN = ''/auth/user/access_token''"

definition VOUCHERS :: string where
  "VOUCHERS = ''/jdyaccouting/voucherlist''"

definition ACCOUNTS :: string where
  "ACCOUNTS = ''/jdyaccouting/account''"

definition access_token_key :: "JDYClient \<Rightarrow> string" where
  "access_token_key self = client_id self @ ''_'' @ username self @ ''_access_token''"

text \<open>\<^verbatim>\<open>__init__\<close>: \<^verbatim>\<open>session or MemoryStorage()\<close> (a storage object is always true),
  and the pre-seeded token is stored only when it is true.\<close>

definition init ::
  "env \<Rightarrow> string \<Rightarrow> string \<Rightarrow> string \<Rightarrow> string \<Rightarrow> string \<Rightarrow> string \<Rightarrow>
   storage option \<Rightarrow> pyval \<Rightarrow> pyval \<Rightarrow> bool \<Rightarrow> exn + JDYClient" where
  "init E cid csecret uname pw acc db sess tok tmo retry =
     (let self = \<lparr>client_id = cid, client_secret = csecret, username = uname, password = pw,
                  account_id = acc, db_id = db, expires_at = None,
                  session = (case sess of None \<Rightarrow> MemoryStorage [] | Some s \<Rightarrow> s),
                  timeout = tmo, auto_retry = retry\<rparr>
      in if truthy tok then
           (case storage_set E (session self) (access_token_key self) tok PNone of
              Inl e \<Rightarrow> Inl e
            | Inr s' \<Rightarrow> Inr (self\<lparr>session := s'\<rparr>))
         else Inr self)"

text \<open>An attribute read \<^verbatim>\<open>obj.request\<close>: a \<^verbatim>\<open>requests.Response\<close> has the attribute,
  a value decoded from JSON (dict, list, str, int, bool, None) has not.\<close>

datatype pyobj = ResponseObj http_call | JsonValue pyval

fun getattr_request :: "pyobj \<Rightarrow> exn + http_call" where
  "getattr_request (ResponseObj c) = Inr c"
| "getattr_request (JsonValue v) = Inl (AttributeError ''request'')"

text \<open>\<^verbatim>\<open>_fetch_access_token(url, params)\<close>. The state is returned with the exception too:
  what was written before a raise stays written.\<close>

definition priv_fetch_access_token ::
  "env \<Rightarrow> state \<Rightarrow> string \<Rightarrow> pyval \<Rightarrow> (exn + pyval) \<times> state" where
  "priv_fetch_access_token E st url ps =
     (let (self, w) = st;
          (res, w1) = http_send E w (TokenGet url ps)
      in case res of
           ConnectionFailed \<Rightarrow> (Inl RequestException, (self, w1))
         | BadStatus \<Rightarrow> (Inl (JDYClientException PNone (Msg PNone)), (self, w1))
         | NotJson \<Rightarrow> (Inl JSONDecodeError, (self, w1))
         | Body result \<Rightarrow>
             (case ebind (py_contains ''errcode'' result) (\<lambda>b.
                     if b then ebind (py_getitem result ''errcode'') (\<lambda>c. Inr (\<not> py_eq c (PInt 0)))
                     else Inr False) of
                Inl e \<Rightarrow> (Inl e, (self, w1))
              | Inr failed \<Rightarrow>
                  if failed then
                    (ebind (py_getitem result ''errcode'') (\<lambda>c.
                     ebind (py_getitem result ''description'') (\<lambda>d.
                     ebind (getattr_request (ResponseObj (TokenGet url ps))) (\<lambda>rq.
                       Inl (JDYClientException c (Msg d))))), (self, w1))
                  else
                    (case ebind (py_contains ''data'' result) (\<lambda>b.
                            if b then ebind (py_getitem result ''data'') (\<lambda>d.
                                      ebind (py_contains ''expires_in'' d) (\<lambda>b'.
                                        if b' then py_getitem d ''expires_in'' else Inr (PInt 7200)))
                            else Inr (PInt 7200)) of
                       Inl e \<Rightarrow> (Inl e, (self, w1))
                     | Inr expires_in \<Rightarrow>
                         (case ebind (py_getitem result ''data'') (\<lambda>d. py_getitem d ''access_token'') of
                            Inl e \<Rightarrow> (Inl e, (self, w1))
                          | Inr tok \<Rightarrow>
                              (case storage_set E (session self) (access_token_key self) tok expires_in of
                                 Inl e \<Rightarrow> (Inl e, (self, w1))
                               | Inr s' \<Rightarrow>
                                   (let self1 = self\<lparr>session := s'\<rparr>;
                                        (t, w2) = time_time E w1
                                    in case py_int_add (int_of_float t) expires_in of
                                         Inl e \<Rightarrow> (Inl e, (self1, w2))
                                       | Inr ea \<Rightarrow>
                                           (Inr result, (self1\<lparr>expires_at := Some ea\<rparr>, w2))))))))"

text \<open>\<^verbatim>\<open>fetch_access_token()\<close>: the query parameters it builds, and the call.
  It has no \<^verbatim>\<open>return\<close>: it yields \<^verbatim>\<open>None\<close>.\<close>

definition credentials :: "JDYClient \<Rightarrow> pyval" where
  "credentials self =
     PDict [(''username'', PStr (username self)),
            (''password'', PStr (password self)),
            (''client_id'', PStr (client_id self)),
            (''client_secret'', PStr (client_secret self))]"

definition fetch_access_token :: "env \<Rightarrow> state \<Rightarrow> (exn + pyval) \<times> state" where
  "fetch_access_token E st =
     (let (self, w) = st;
          ps = credentials self
      in case priv_fetch_access_token E st (API_BASE_URL @ GET_ACCESS_TOKEN) ps of
           (Inl e, st') \<Rightarrow> (Inl e, st')
         | (Inr r, st') \<Rightarrow> (Inr PNone, st'))"

text \<open>The tail of the \<^verbatim>\<open>access_token\<close> property (the last three lines), reached by
  falling through either \<^verbatim>\<open>if\<close>.\<close>

definition access_token_refetch :: "env \<Rightarrow> state \<Rightarrow> (exn + pyval) \<times> state" where
  "access_token_refetch E st =
     (case fetch_access_token E st of
        (Inl e, st') \<Rightarrow> (Inl e, st')
      | (Inr r, st') \<Rightarrow> (storage_get E (session (fst st')) (access_token_key (fst st')) PNone, st'))"

text \<open>The \<^verbatim>\<open>access_token\<close> property. \<^verbatim>\<open>not self.expires_at\<close> holds for \<^verbatim>\<open>None\<close>
  and for \<^verbatim>\<open>0\<close>.\<close>

definition access_token :: "env \<Rightarrow> state \<Rightarrow> (exn + pyval) \<times> state" where
  "access_token E st =
     (let (self, w) = st in
      case storage_get E (session self) (access_token_key self) PNone of
        Inl e \<Rightarrow> (Inl e, st)
      | Inr tok \<Rightarrow>
          if truthy tok then
            (case expires_at self of
               None \<Rightarrow> (Inr tok, st)
             | Some ea \<Rightarrow>
                 if ea = 0 then (Inr tok, st)
                 else
                   (let (timestamp, w1) = time_time E w in
                    if real_of_int ea - timestamp > 60 then (Inr tok, (self, w1))
                    else access_token_refetch E (self, w1)))
          else access_token_refetch E st)"

section \<open>Requests\<close>

text \<open>The keyword arguments \<^verbatim>\<open>_request\<close> looks at (\<^verbatim>\<open>api_base_url\<close>, \<^verbatim>\<open>params\<close>,
  \<^verbatim>\<open>result_processor\<close>) and the \<^verbatim>\<open>json\<close> body the resource methods pass; an absent
  keyword is \<open>None\<close>.\<close>

record kwargs =
  api_base_url :: "string option"
  params :: "pyval option"
  result_processor :: "(pyval \<Rightarrow> exn + pyval) option"
  json :: "pyval option"

text \<open>The first lines of \<^verbatim>\<open>_request\<close>, in three steps: the URL (a bare endpoint is joined
  to \<^verbatim>\<open>api_base_url\<close>, which is popped), the default \<^verbatim>\<open>params\<close>, and the token put into
  a \<^verbatim>\<open>params\<close> dict that has none.\<close>

definition resolve_url :: "string \<Rightarrow> kwargs \<Rightarrow> string \<times> kwargs" where
  "resolve_url url_or_endpoint kw =
     (if \<not> (startswith url_or_endpoint ''http://'' \<or> startswith url_or_endpoint ''https://'')
      then ((case api_base_url kw of None \<Rightarrow> API_BASE_URL | Some b \<Rightarrow> b) @ url_or_endpoint,
            kw\<lparr>api_base_url := None\<rparr>)
      else (url_or_endpoint, kw))"

definition default_params :: "kwargs \<Rightarrow> kwargs" where
  "default_params kw = (if params kw = None then kw\<lparr>params := Some (PDict [])\<rparr> else kw)"

definition inject_access_token :: "env \<Rightarrow> state \<Rightarrow> kwargs \<Rightarrow> (exn + kwargs) \<times> state" where
  "inject_access_token E st kw =
     (case params kw of
        Some (PDict d) \<Rightarrow>
          if map_of d ''access_token'' = None then
            (case access_token E st of
               (Inl e, st') \<Rightarrow> (Inl e, st')
             | (Inr tok, st') \<Rightarrow>
                 (Inr (kw\<lparr>params := Some (PDict (AList.update ''access_token'' tok d))\<rparr>), st'))
          else (Inr kw, st)
      | _ \<Rightarrow> (Inr kw, st))"

text \<open>
  \<^verbatim>\<open>_request\<close> and \<^verbatim>\<open>_handle_result\<close> call each other. \<^verbatim>\<open>_http.request\<close> rejects a keyword
  it does not know, which is what happens to an \<^verbatim>\<open>api_base_url\<close> that was not popped.
\<close>

function priv_request ::
    "env \<Rightarrow> state \<Rightarrow> string \<Rightarrow> string \<Rightarrow> bool \<Rightarrow> kwargs \<Rightarrow> (exn + pyval) \<times> state"
  and priv_handle_result ::
    "env \<Rightarrow> state \<Rightarrow> pyval \<Rightarrow> string \<Rightarrow> string \<Rightarrow> (pyval \<Rightarrow> exn + pyval) option \<Rightarrow> bool \<Rightarrow> kwargs
       \<Rightarrow> (exn + pyval) \<times> state" where
  "priv_request E st method url_or_endpoint auto_retry' kw =
     (let (url, kw1) = resolve_url url_or_endpoint kw;
          kw2 = default_params kw1
      in case inject_access_token E st kw2 of
           (Inl e, st1) \<Rightarrow> (Inl e, st1)
         | (Inr kw3, st1) \<Rightarrow>
             (let rp = result_processor kw3;
                  kw4 = kw3\<lparr>result_processor := None\<rparr>
              in case api_base_url kw4 of
                   Some b \<Rightarrow> (Inl TypeError, st1)
                 | None \<Rightarrow>
                     (let (res, w2) = http_send E (snd st1) (Request method url (params kw4) (json kw4));
                          st2 = (fst st1, w2)
                      in case res of
                           ConnectionFailed \<Rightarrow> (Inl RequestException, st2)
                         | BadStatus \<Rightarrow> (Inl (JDYClientException PNone (Msg PNone)), st2)
                         | NotJson \<Rightarrow> (Inl JSONDecodeError, st2)
                         | Body r \<Rightarrow>
                             (case py_contains ''code'' r of
                                Inl e \<Rightarrow> (Inl e, st2)
                              | Inr has_code \<Rightarrow>
                                  if \<not> has_code then (Inl (JDYClientException PNone (StrOf r)), st2)
                                  else priv_handle_result E st2 r method url rp auto_retry' kw4))))"
| "priv_handle_result E st res method url rp auto_retry' kw =
     (case ebind (py_contains ''code'' res) (\<lambda>b.
             if b then ebind (py_getitem res ''code'') (\<lambda>c.
                       ebind (py_int c) (\<lambda>n. py_setitem res ''code'' (PInt n)))
             else Inr res) of
        Inl e \<Rightarrow> (Inl e, st)
      | Inr result \<Rightarrow>
          (case ebind (py_contains ''code'' result) (\<lambda>b.
                  if b then ebind (py_getitem result ''code'') (\<lambda>c. Inr (\<not> py_eq c (PInt 0)))
                  else Inr False) of
             Inl e \<Rightarrow> (Inl e, st)
           | Inr failed \<Rightarrow>
               if failed then
                 (case ebind (py_getitem result ''code'') (\<lambda>errcode.
                         ebind (py_get result ''msg'' errcode) (\<lambda>errmsg. Inr (errcode, errmsg))) of
                    Inl e \<Rightarrow> (Inl e, st)
                  | Inr (errcode, errmsg) \<Rightarrow>
                      if auto_retry (fst st) \<and> auto_retry' \<and> py_eq errcode (PInt INVALID_CREDENTIAL) then
                        (case fetch_access_token E st of
                           (Inl e, st1) \<Rightarrow> (Inl e, st1)
                         | (Inr u, st1) \<Rightarrow>
                             (case storage_get E (session (fst st1)) (access_token_key (fst st1)) PNone of
                                Inl e \<Rightarrow> (Inl e, st1)
                              | Inr tok \<Rightarrow>
                                  (case params kw of
                                     None \<Rightarrow> (Inl (KeyError ''params''), st1)
                                   | Some p \<Rightarrow>
                                       (case py_setitem p ''access_token'' tok of
                                          Inl e \<Rightarrow> (Inl e, st1)
                                        | Inr p' \<Rightarrow>
                                            priv_request E st1 method url False
                                              (kw\<lparr>params := Some p', result_processor := rp\<rparr>)))))
                      else
                        (ebind (getattr_request (JsonValue result)) (\<lambda>rq.
                           Inl (JDYClientException errcode (Msg errmsg))), st))
               else (case rp of None \<Rightarrow> Inr result | Some f \<Rightarrow> f result, st)))"
  by pat_completeness auto
termination
  by (relation "measure (\<lambda>x. case x of
         Inl (E, st, m, u, a, kw) \<Rightarrow> (if a then 3 else 1)
       | Inr (E, st, r, m, u, rp, a, kw) \<Rightarrow> (if a then 2 else 0))") auto

declare priv_request.simps [simp del]
declare priv_handle_result.simps [simp del]

text \<open>The two resource methods.\<close>

definition accounting_get_accounts :: "env \<Rightarrow> state \<Rightarrow> (exn + pyval) \<times> state" where
  "accounting_get_accounts E st =
     priv_request E st ''get'' ACCOUNTS True
       \<lparr>api_base_url = None,
        params = Some (PDict [(''sid'', PStr (account_id (fst st))), (''dbId'', PStr (db_id (fst st)))]),
        result_processor = None,
        json = None\<rparr>"

definition accounting_get_voucher_list :: "env \<Rightarrow> state \<Rightarrow> pyval \<Rightarrow> pyval \<Rightarrow> (exn + pyval) \<times> state" where
  "accounting_get_voucher_list E st from_period to_period =
     priv_request E st ''post'' VOUCHERS True
       \<lparr>api_base_url = None,
        params = Some (PDict [(''sid'', PStr (account_id (fst st))), (''dbId'', PStr (db_id (fst st)))]),
        result_processor = None,
        json = Some (PDict [(''fromPeriod'', from_period), (''toPeriod'', to_period)])\<rparr>"

section \<open>Observing a run\<close>

text \<open>A caller reading the \<^verbatim>\<open>access_token\<close> property \<open>n\<close> times in a row.\<close>

fun access_token_times :: "env \<Rightarrow> nat \<Rightarrow> state \<Rightarrow> (exn + pyval) list \<times> state" where
  "access_token_times E 0 st = ([], st)"
| "access_token_times E (Suc n) st =
     (let (r, st1) = access_token E st;
          (rs, st2) = access_token_times E n st1
      in (r # rs, st2))"




section \<open>Example inputs\<close>

text \<open>A client, two servers and a JSON codec for strings without escapes, used to run
  the definitions on concrete inputs. Both servers answer a token request with
  \<^verbatim>\<open>{"errcode": 0, "data": {"access_token": "T2", "expires_in": 7200}}\<close>; the first
  accepts a resource call that carries \<^verbatim>\<open>T2\<close> and answers \<^verbatim>\<open>4010\<close> to any other, the
  second answers \<^verbatim>\<open>4010\<close> to every resource call. The clock stands at 1000.\<close>

definition example_client :: JDYClient where
  "example_client =
     \<lparr>client_id = ''app'', client_secret = ''s3cret'', username = ''bob'', password = ''pw'',
      account_id = ''A'', db_id = ''B'', expires_at = None, session = MemoryStorage [],
      timeout = PNone, auto_retry = True\<rparr>"

definition example_world :: world where
  "example_world = \<lparr>http_log = [], ticks = 0\<rparr>"

definition token_envelope :: "string \<Rightarrow> pyval" where
  "token_envelope t =
     PDict [(''errcode'', PInt 0),
            (''data'', PDict [(''access_token'', PStr t), (''expires_in'', PInt 7200)])]"

definition example_dumps :: "pyval \<Rightarrow> string" where
  "example_dumps v = (case v of PStr s \<Rightarrow> CHR 0x22 # s @ [CHR 0x22] | _ \<Rightarrow> ''null'')"

definition example_loads :: "string \<Rightarrow> exn + pyval" where
  "example_loads s =
     (if 2 \<le> length s \<and> hd s = CHR 0x22 \<and> last s = CHR 0x22
      then Inr (PStr (butlast (tl s)))
      else Inl JSONDecodeError)"

definition example_env :: env where
  "example_env =
     \<lparr>server = (\<lambda>log. case last log of
                  TokenGet u p \<Rightarrow> Body (token_envelope ''T2'')
                | Request m u p j \<Rightarrow>
                    (case p of
                       Some (PDict d) \<Rightarrow>
                         if map_of d ''access_token'' = Some (PStr ''T2'')
                         then Body (PDict [(''code'', PInt 0), (''data'', PList [PStr ''1001''])])
                         else Body (PDict [(''code'', PInt 4010)])
                     | _ \<Rightarrow> Body (PDict [(''code'', PInt 4010)]))),
      clock = (\<lambda>n. 1000),
      json_dumps = example_dumps,
      json_loads = example_loads\<rparr>"

definition rejecting_env :: env where
  "rejecting_env =
     \<lparr>server = (\<lambda>log. case last log of
                  TokenGet u p \<Rightarrow> Body (token_envelope ''T2'')
                | Request m u p j \<Rightarrow> Body (PDict [(''code'', PInt 4010), (''msg'', PStr ''invalid token'')])),
      clock = (\<lambda>n. 1000),
      json_dumps = example_dumps,
      json_loads = example_loads\<rparr>"

definition example_kwargs :: kwargs where
  "example_kwargs =
     \<lparr>api_base_url = None,
      params = Some (PDict [(''sid'', PStr ''A''), (''dbId'', PStr ''B''), (''access_token'', PStr ''T1'')]),
      result_processor = None,
      json = None\<rparr>"

section \<open>What each step does to the log\<close>









lemma inject_has_token:
  assumes "params kw = Some (PDict d)" and "map_of d ''access_token'' \<noteq> None"
  shows "inject_access_token E st kw = (Inr kw, st)"
  using assms by (cases "map_of d ''access_token''") (simp_all add: inject_access_token_def)












section \<open>The credential store\<close>

text \<open>
  C6. Calling \<^verbatim>\<open>set(key, None, ttl)\<close> leaves the store as it was, for the in-memory
  store and for the Redis-backed one: the store after the call is the store before it, so
  no entry is created or overwritten and \<^verbatim>\<open>get\<close> returns for every key what it returned
  before.
\<close>

theorem C6_set_null_is_noop:
  "MemoryStorage_set d key PNone ttl = d
   \<and> RedisStorage_set E r prefix key PNone ttl = r
   \<and> storage_set E (MemoryStorage d) key PNone ttl = Inr (MemoryStorage d)
   \<and> storage_set E (RedisStorage r prefix) key PNone ttl = Inr (RedisStorage r prefix)
   \<and> ebind (storage_set E (MemoryStorage d) key PNone ttl) (\<lambda>s'. storage_get E s' k dflt)
        = storage_get E (MemoryStorage d) k dflt
   \<and> ebind (storage_set E (RedisStorage r prefix) key PNone ttl) (\<lambda>s'. storage_get E s' k dflt)
        = storage_get E (RedisStorage r prefix) k dflt"
  by (simp add: MemoryStorage_set_def RedisStorage_set_def ebind_def)



text \<open>Where \<^verbatim>\<open>get\<close> raises, so does the subscript read: the base class has no \<^verbatim>\<open>get\<close> of its
  own, and the Redis-backed store raises on an entry that \<^verbatim>\<open>json.loads\<close> rejects.\<close>

lemma getitem_raises:
  "getitem E SessionStorage key = Inl NotImplementedError"
  "storage_get E s key PNone = Inl e \<Longrightarrow> getitem E s key = Inl e"
  by (simp_all add: getitem_def)

section \<open>The token key\<close>

lemma split_at_first:
  "x \<notin> set xs \<Longrightarrow> x \<notin> set xs' \<Longrightarrow> xs @ x # ys = xs' @ x # ys' \<Longrightarrow> xs = xs' \<and> ys = ys'"
proof (induction xs arbitrary: xs')
  case Nil
  then show ?case by (cases xs') auto
next
  case (Cons a xs)
  then show ?case by (cases xs') auto
qed

text \<open>
  C7, as the spec states it: two clients with distinct \<open>(client_id, username)\<close> pairs have
  distinct token keys. The underscore that joins the two parts may also occur inside them:
  \<open>(''a_b'', ''c'')\<close> and \<open>(''a'', ''b_c'')\<close> share the key \<open>''a_b_c_access_token''\<close>.
\<close>

theorem C7_key_collision:
  "(client_id (example_client\<lparr>client_id := ''a_b'', username := ''c''\<rparr>),
    username (example_client\<lparr>client_id := ''a_b'', username := ''c''\<rparr>))
   \<noteq> (client_id (example_client\<lparr>client_id := ''a'', username := ''b_c''\<rparr>),
       username (example_client\<lparr>client_id := ''a'', username := ''b_c''\<rparr>))
   \<and> access_token_key (example_client\<lparr>client_id := ''a_b'', username := ''c''\<rparr>)
       = access_token_key (example_client\<lparr>client_id := ''a'', username := ''b_c''\<rparr>)"
  by (simp add: access_token_key_def)

text \<open>
  C7, amended. The key is a function of \<open>(client_id, username)\<close> alone; two clients share
  a key exactly when \<^verbatim>\<open>client_id + '_' + username\<close> is the same text for both; and two
  clients with distinct pairs have distinct keys whenever neither client id contains an
  underscore, or neither user name does.
\<close>

theorem C7_key_deterministic_and_injective:
  "(client_id a = client_id b \<and> username a = username b \<longrightarrow> access_token_key a = access_token_key b)
   \<and> (access_token_key a = access_token_key b
        \<longleftrightarrow> client_id a @ ''_'' @ username a = client_id b @ ''_'' @ username b)
   \<and> (((CHR ''_'' \<notin> set (client_id a) \<and> CHR ''_'' \<notin> set (client_id b))
        \<or> (CHR ''_'' \<notin> set (username a) \<and> CHR ''_'' \<notin> set (username b)))
       \<and> (client_id a, username a) \<noteq> (client_id b, username b)
       \<longrightarrow> access_token_key a \<noteq> access_token_key b)"
proof -
  have det: "client_id a = client_id b \<and> username a = username b \<longrightarrow> access_token_key a = access_token_key b"
    by (simp add: access_token_key_def)
  have inj1: "client_id a = client_id b \<and> username a = username b"
    if "CHR ''_'' \<notin> set (client_id a)" "CHR ''_'' \<notin> set (client_id b)"
       "access_token_key a = access_token_key b"
  proof -
    from that(3) have "client_id a @ CHR ''_'' # username a = client_id b @ CHR ''_'' # username b"
      by (simp add: access_token_key_def)
    with that(1,2) show ?thesis
      using split_at_first[of "CHR ''_''" "client_id a" "client_id b" "username a" "username b"]
      by simp
  qed
  have inj2: "client_id a = client_id b \<and> username a = username b"
    if "CHR ''_'' \<notin> set (username a)" "CHR ''_'' \<notin> set (username b)"
       "access_token_key a = access_token_key b"
  proof -
    from that(3) have "client_id a @ CHR ''_'' # username a = client_id b @ CHR ''_'' # username b"
      by (simp add: access_token_key_def)
    then have "rev (client_id a @ CHR ''_'' # username a) = rev (client_id b @ CHR ''_'' # username b)"
      by simp
    then have "rev (username a) @ CHR ''_'' # rev (client_id a)
                 = rev (username b) @ CHR ''_'' # rev (client_id b)"
      by simp
    with that(1,2) have "rev (username a) = rev (username b) \<and> rev (client_id a) = rev (client_id b)"
      using split_at_first[of "CHR ''_''" "rev (username a)" "rev (username b)"
                              "rev (client_id a)" "rev (client_id b)"]
      by simp
    then show ?thesis by simp
  qed
  have iff: "access_token_key a = access_token_key b
        \<longleftrightarrow> client_id a @ ''_'' @ username a = client_id b @ ''_'' @ username b"
    by (simp add: access_token_key_def)
  show ?thesis using det iff inj1 inj2 by blast
qed

theorem C7_key_deterministic_and_injective_witness:
  "access_token_key (example_client\<lparr>account_id := ''Z''\<rparr>) = access_token_key example_client
   \<and> access_token_key (example_client\<lparr>username := ''alice''\<rparr>) \<noteq> access_token_key example_client
   \<and> access_token_key (example_client\<lparr>client_id := ''a-b'', username := ''c_d''\<rparr>)
       \<noteq> access_token_key (example_client\<lparr>client_id := ''a'', username := ''b_c_d''\<rparr>)"
proof -
  have 1: "access_token_key (example_client\<lparr>account_id := ''Z''\<rparr>) = access_token_key example_client"
    using C7_key_deterministic_and_injective[of "example_client\<lparr>account_id := ''Z''\<rparr>" example_client]
    by simp
  have 2: "access_token_key (example_client\<lparr>username := ''alice''\<rparr>) \<noteq> access_token_key example_client"
    using C7_key_deterministic_and_injective[of "example_client\<lparr>username := ''alice''\<rparr>" example_client]
    by (simp add: example_client_def)
  have 3: "access_token_key (example_client\<lparr>client_id := ''a-b'', username := ''c_d''\<rparr>)
       \<noteq> access_token_key (example_client\<lparr>client_id := ''a'', username := ''b_c_d''\<rparr>)"
    using C7_key_deterministic_and_injective[of "example_client\<lparr>client_id := ''a-b'', username := ''c_d''\<rparr>"
          "example_client\<lparr>client_id := ''a'', username := ''b_c_d''\<rparr>"]
    by simp
  show ?thesis using 1 2 3 by simp
qed

section \<open>Fetching a token\<close>


lemma priv_fetch_success:
  assumes "server E (http_log w @ [TokenGet url ps]) = Body (PDict r)"
      and "map_of r ''errcode'' = None \<or> (\<exists>c. map_of r ''errcode'' = Some c \<and> py_eq c (PInt 0))"
      and "map_of r ''data'' = Some (PDict dd)"
      and "map_of dd ''access_token'' = Some tok"
      and "(case map_of dd ''expires_in'' of None \<Rightarrow> PInt 7200 | Some v \<Rightarrow> v) = PInt n"
      and "storage_set E (session self) (access_token_key self) tok (PInt n) = Inr s'"
  shows "priv_fetch_access_token E (self, w) url ps =
           (Inr (PDict r),
            (self\<lparr>session := s', expires_at := Some (int_of_float (clock E (ticks w)) + n)\<rparr>,
             w\<lparr>http_log := http_log w @ [TokenGet url ps], ticks := Suc (ticks w)\<rparr>))"
  using assms
  by (auto simp add: priv_fetch_access_token_def http_send_def time_time_def ebind_def
      split: option.splits)

lemma fetch_success:
  assumes "server E (http_log w @ [TokenGet (API_BASE_URL @ GET_ACCESS_TOKEN) (credentials self)]) = Body (PDict r)"
      and "map_of r ''errcode'' = None \<or> (\<exists>c. map_of r ''errcode'' = Some c \<and> py_eq c (PInt 0))"
      and "map_of r ''data'' = Some (PDict dd)"
      and "map_of dd ''access_token'' = Some tok"
      and "(case map_of dd ''expires_in'' of None \<Rightarrow> PInt 7200 | Some v \<Rightarrow> v) = PInt n"
      and "storage_set E (session self) (access_token_key self) tok (PInt n) = Inr s'"
  shows "fetch_access_token E (self, w) =
           (Inr PNone,
            (self\<lparr>session := s', expires_at := Some (int_of_float (clock E (ticks w)) + n)\<rparr>,
             w\<lparr>http_log := http_log w @ [TokenGet (API_BASE_URL @ GET_ACCESS_TOKEN) (credentials self)],
               ticks := Suc (ticks w)\<rparr>))"
  using priv_fetch_success[OF assms] by (simp add: fetch_access_token_def)

text \<open>The token request against either example server.\<close>

lemma example_token_key:
  "access_token_key (example_client\<lparr>session := s, expires_at := e\<rparr>) = ''app_bob_access_token''"
  by (simp add: access_token_key_def example_client_def)

lemma example_fetch:
  "fetch_access_token E (example_client\<lparr>session := MemoryStorage d, expires_at := e\<rparr>, w) =
     (Inr PNone,
      (example_client\<lparr>session := MemoryStorage (AList.update ''app_bob_access_token'' (PStr ''T2'') d),
                      expires_at := Some 8200\<rparr>,
       w\<lparr>http_log := http_log w @ [TokenGet (API_BASE_URL @ GET_ACCESS_TOKEN) (credentials example_client)],
         ticks := Suc (ticks w)\<rparr>))"
  if "E = example_env \<or> E = rejecting_env"
proof -
  let ?self = "example_client\<lparr>session := MemoryStorage d, expires_at := e\<rparr>"
  let ?r = "[(''errcode'', PInt 0),
             (''data'', PDict [(''access_token'', PStr ''T2''), (''expires_in'', PInt 7200)])]"
  let ?dd = "[(''access_token'', PStr ''T2''), (''expires_in'', PInt 7200)]"
  have cr: "credentials ?self = credentials example_client" by (simp add: credentials_def)
  have h1: "server E (http_log w @ [TokenGet (API_BASE_URL @ GET_ACCESS_TOKEN) (credentials ?self)])
              = Body (PDict ?r)"
    using that by (auto simp: example_env_def rejecting_env_def token_envelope_def)
  have h2: "map_of ?r ''errcode'' = None \<or> (\<exists>c. map_of ?r ''errcode'' = Some c \<and> py_eq c (PInt 0))"
    by simp
  have h4: "map_of ?r ''data'' = Some (PDict ?dd)" by simp
  have h5: "map_of ?dd ''access_token'' = Some (PStr ''T2'')" by simp
  have h6: "(case map_of ?dd ''expires_in'' of None \<Rightarrow> PInt 7200 | Some v \<Rightarrow> v) = PInt 7200" by simp
  have h7: "storage_set E (session ?self) (access_token_key ?self) (PStr ''T2'') (PInt 7200)
              = Inr (MemoryStorage (AList.update ''app_bob_access_token'' (PStr ''T2'') d))"
    by (simp add: example_token_key MemoryStorage_set_def)
  have c: "int_of_float (clock E (ticks w)) + 7200 = 8200"
    using that by (auto simp: example_env_def rejecting_env_def int_of_float_def)
  show ?thesis
    using fetch_success[OF h1 h2 h4 h5 h6 h7] c cr by simp
qed





text \<open>An error envelope without a \<^verbatim>\<open>description\<close> ends in \<^verbatim>\<open>KeyError\<close>: the field is read
  with a plain subscript.\<close>

lemma priv_fetch_error_without_description:
  assumes "server E (http_log w @ [TokenGet url ps]) = Body (PDict r)"
      and "map_of r ''errcode'' = Some c" and "\<not> py_eq c (PInt 0)"
      and "map_of r ''description'' = None"
  shows "priv_fetch_access_token E (self, w) url ps =
           (Inl (KeyError ''description''), (self, w\<lparr>http_log := http_log w @ [TokenGet url ps]\<rparr>))"
  using assms
  by (simp add: priv_fetch_access_token_def http_send_def ebind_def)

section \<open>Reading the token\<close>



lemma access_token_seeded:
  assumes "storage_get E (session self) (access_token_key self) PNone = Inr tok"
      and "truthy tok" and "expires_at self = None"
  shows "access_token E (self, w) = (Inr tok, (self, w))"
  using assms by (simp add: access_token_def)

lemma access_token_times_seeded:
  assumes "storage_get E (session self) (access_token_key self) PNone = Inr tok"
      and "truthy tok" and "expires_at self = None"
  shows "access_token_times E n (self, w) = (replicate n (Inr tok), (self, w))"
  by (induction n) (simp_all add: access_token_seeded[OF assms])

lemma init_expires_at:
  "init E cid cs un pw acc db sess tok tmo ar = Inr self \<Longrightarrow> expires_at self = None"
  by (auto simp: init_def Let_def split: if_splits sum.splits)

lemma init_memory:
  assumes "truthy tok" and "sess = None \<or> sess = Some (MemoryStorage d)"
  shows "\<exists>self. init E cid cs un pw acc db sess tok tmo ar = Inr self
          \<and> storage_get E (session self) (access_token_key self) PNone = Inr tok"
  using assms
  by (auto simp: init_def Let_def access_token_key_def MemoryStorage_set_def MemoryStorage_get_def
        update_conv')




text \<open>
  C8. A client constructed with a pre-seeded token (a true value) has \<^verbatim>\<open>expires_at\<close> unset.
  As long as the store gives that token back under the client's key, every read of the
  property returns it and leaves client, clock and log as they were, so no read ever
  sends a request. With the default store or any in-memory store the store does give it
  back, so there the construction succeeds and every read returns the token.
\<close>

theorem C8_seeded_token_never_fetches:
  "(truthy tok
     \<and> init E cid cs un pw acc db sess tok tmo ar = Inr self
     \<and> storage_get E (session self) (access_token_key self) PNone = Inr tok
     \<longrightarrow> expires_at self = None
         \<and> access_token_times E n (self, w) = (replicate n (Inr tok), (self, w)))
   \<and> (truthy tok \<and> (sess = None \<or> sess = Some (MemoryStorage d))
     \<longrightarrow> (\<exists>self. init E cid cs un pw acc db sess tok tmo ar = Inr self
                 \<and> (\<forall>n w. access_token_times E n (self, w) = (replicate n (Inr tok), (self, w)))))"
proof -
  have a: "expires_at self = None
         \<and> access_token_times E n (self, w) = (replicate n (Inr tok), (self, w))"
    if "truthy tok" "init E cid cs un pw acc db sess tok tmo ar = Inr self"
       "storage_get E (session self) (access_token_key self) PNone = Inr tok"
    for self n w
    using that init_expires_at[OF that(2)] access_token_times_seeded[OF that(3) that(1)]
    by simp
  have b: "\<exists>self. init E cid cs un pw acc db sess tok tmo ar = Inr self
                 \<and> (\<forall>n w. access_token_times E n (self, w) = (replicate n (Inr tok), (self, w)))"
    if tt: "truthy tok" and ss: "sess = None \<or> sess = Some (MemoryStorage d)"
  proof -
    obtain self where s: "init E cid cs un pw acc db sess tok tmo ar = Inr self"
       "storage_get E (session self) (access_token_key self) PNone = Inr tok"
      using init_memory[OF tt ss] by blast
    then show ?thesis using a[OF tt s] by blast
  qed
  show ?thesis using a b by blast
qed

theorem C8_seeded_token_never_fetches_witness:
  "init example_env ''app'' ''s3cret'' ''bob'' ''pw'' ''A'' ''B'' None (PStr ''T0'') PNone True
     = Inr (example_client\<lparr>session := MemoryStorage [(''app_bob_access_token'', PStr ''T0'')]\<rparr>)
   \<and> access_token_times example_env 3
        (example_client\<lparr>session := MemoryStorage [(''app_bob_access_token'', PStr ''T0'')]\<rparr>, example_world)
     = ([Inr (PStr ''T0''), Inr (PStr ''T0''), Inr (PStr ''T0'')],
        (example_client\<lparr>session := MemoryStorage [(''app_bob_access_token'', PStr ''T0'')]\<rparr>, example_world))"
proof -
  let ?self = "example_client\<lparr>session := MemoryStorage [(''app_bob_access_token'', PStr ''T0'')]\<rparr>"
  have i: "init example_env ''app'' ''s3cret'' ''bob'' ''pw'' ''A'' ''B'' None (PStr ''T0'') PNone True
             = Inr ?self"
    by (simp add: init_def example_client_def access_token_key_def MemoryStorage_set_def)
  have g: "storage_get example_env (session ?self) (access_token_key ?self) PNone = Inr (PStr ''T0'')"
    by (simp add: access_token_key_def example_client_def MemoryStorage_get_def)
  have t: "truthy (PStr ''T0'')" by simp
  have "access_token_times example_env 3 (?self, example_world)
          = (replicate 3 (Inr (PStr ''T0'')), (?self, example_world))"
    using C8_seeded_token_never_fetches[of "PStr ''T0''" example_env "''app''" "''s3cret''" "''bob''"
            "''pw''" "''A''" "''B''" None PNone True ?self 3 example_world] i g t
    by blast
  then show ?thesis using i by (simp add: numeral_3_eq_3)
qed

text \<open>The two tests of the property are truth tests. An \<^verbatim>\<open>expires_at\<close> of 0 counts as unset,
  and a stored value that is false (an empty string, 0) counts as no token.\<close>

lemma access_token_expires_at_zero:
  assumes "storage_get E (session self) (access_token_key self) PNone = Inr tok"
      and "truthy tok" and "expires_at self = Some 0"
  shows "access_token E (self, w) = (Inr tok, (self, w))"
  using assms by (simp add: access_token_def)

lemma access_token_false_token:
  assumes "storage_get E (session self) (access_token_key self) PNone = Inr tok"
      and "\<not> truthy tok"
  shows "access_token E (self, w) = access_token_refetch E (self, w)"
  using assms by (simp add: access_token_def)

text \<open>A client with \<^verbatim>\<open>expires_at = 0\<close> is what a fetch leaves behind when the exchange
  answers with \<^verbatim>\<open>expires_in\<close> equal to minus the current time.\<close>

lemma fetch_can_leave_expires_at_zero:
  "fetch_access_token
       (example_env\<lparr>server := \<lambda>log. Body (PDict [(''errcode'', PInt 0),
            (''data'', PDict [(''access_token'', PStr ''T1''), (''expires_in'', PInt (- 1000))])])\<rparr>)
       (example_client, example_world)
     = (Inr PNone,
        (example_client\<lparr>session := MemoryStorage [(''app_bob_access_token'', PStr ''T1'')],
                        expires_at := Some 0\<rparr>,
         \<lparr>http_log = [TokenGet (API_BASE_URL @ GET_ACCESS_TOKEN) (credentials example_client)],
          ticks = 1\<rparr>))"
proof -
  let ?r = "[(''errcode'', PInt 0),
             (''data'', PDict [(''access_token'', PStr ''T1''), (''expires_in'', PInt (- 1000))])]"
  let ?dd = "[(''access_token'', PStr ''T1''), (''expires_in'', PInt (- 1000))]"
  let ?E = "example_env\<lparr>server := \<lambda>log. Body (PDict ?r)\<rparr>"
  have h1: "server ?E (http_log example_world
              @ [TokenGet (API_BASE_URL @ GET_ACCESS_TOKEN) (credentials example_client)]) = Body (PDict ?r)"
    by simp
  have h2: "map_of ?r ''errcode'' = None \<or> (\<exists>c. map_of ?r ''errcode'' = Some c \<and> py_eq c (PInt 0))"
    by simp
  have h4: "map_of ?r ''data'' = Some (PDict ?dd)" by simp
  have h5: "map_of ?dd ''access_token'' = Some (PStr ''T1'')" by simp
  have h6: "(case map_of ?dd ''expires_in'' of None \<Rightarrow> PInt 7200 | Some v \<Rightarrow> v) = PInt (- 1000)"
    by simp
  have h7: "storage_set ?E (session example_client) (access_token_key example_client) (PStr ''T1'')
              (PInt (- 1000)) = Inr (MemoryStorage [(''app_bob_access_token'', PStr ''T1'')])"
    by (simp add: example_client_def access_token_key_def MemoryStorage_set_def)
  have c: "int_of_float (clock ?E (ticks example_world)) + (- 1000) = 0"
    by (simp add: example_env_def int_of_float_def)
  show ?thesis
    using fetch_success[OF h1 h2 h4 h5 h6 h7] c
    by (simp add: example_world_def)
qed

section \<open>Interpreting a response\<close>


lemma handle_result_retry:
  assumes "map_of d ''code'' = Some c" and "py_int c = Inr 4010" and "auto_retry (fst st)"
      and "fetch_access_token E st = (Inr u0, st1)"
      and "storage_get E (session (fst st1)) (access_token_key (fst st1)) PNone = Inr tok"
      and "params kw = Some (PDict p)"
  shows "priv_handle_result E st (PDict d) m u rp True kw =
           priv_request E st1 m u False
             (kw\<lparr>params := Some (PDict (AList.update ''access_token'' tok p)), result_processor := rp\<rparr>)"
  using assms
  by (simp add: priv_handle_result.simps ebind_def update_conv' INVALID_CREDENTIAL_def)

lemma handle_result_raise:
  assumes "map_of d ''code'' = Some c" and "py_int c = Inr n" and "n \<noteq> 0"
      and "\<not> (auto_retry (fst st) \<and> a \<and> n = 4010)"
  shows "priv_handle_result E st (PDict d) m u rp a kw = (Inl (AttributeError ''request''), st)"
  using assms
  by (auto simp add: priv_handle_result.simps ebind_def update_conv' INVALID_CREDENTIAL_def)

lemma resolve_url_no_base:
  "api_base_url kw = None \<Longrightarrow> snd (resolve_url u kw) = kw"
  by (simp add: resolve_url_def)

lemma request_sent:
  assumes "params kw = Some (PDict p)" and "map_of p ''access_token'' \<noteq> None"
      and "api_base_url kw = None"
      and "server E (http_log (snd st) @ [Request m (fst (resolve_url u kw)) (params kw) (json kw)])
             = Body (PDict d)"
      and "map_of d ''code'' \<noteq> None"
  shows "priv_request E st m u a kw =
           priv_handle_result E
             (fst st, (snd st)\<lparr>http_log := http_log (snd st)
                                  @ [Request m (fst (resolve_url u kw)) (params kw) (json kw)]\<rparr>)
             (PDict d) m (fst (resolve_url u kw)) (result_processor kw) a
             (kw\<lparr>result_processor := None\<rparr>)"
proof -
  obtain url kw1 where ru: "resolve_url u kw = (url, kw1)" by (cases "resolve_url u kw")
  then have kw1: "kw1 = kw" using resolve_url_no_base[OF assms(3), of u] by simp
  have dp: "default_params kw = kw" using assms(1) by (simp add: default_params_def)
  have inj: "inject_access_token E st kw = (Inr kw, st)"
    using inject_has_token[OF assms(1,2)] .
  show ?thesis
    using ru kw1 dp inj assms(3,4,5)
    by (simp add: priv_request.simps http_send_def)
qed



section \<open>Two runs against the example servers\<close>

lemma rejecting_request_no_retry:
  "priv_request rejecting_env (self, w) ''get'' (API_BASE_URL @ ACCOUNTS) False
       (example_kwargs\<lparr>params := Some (PDict p)\<rparr>)
     = (Inl (AttributeError ''request''),
        (self, w\<lparr>http_log := http_log w
                    @ [Request ''get'' (API_BASE_URL @ ACCOUNTS) (Some (PDict p)) None]\<rparr>))"
  if "map_of p ''access_token'' \<noteq> None"
proof -
  let ?kw = "example_kwargs\<lparr>params := Some (PDict p)\<rparr>"
  let ?d = "[(''code'', PInt 4010), (''msg'', PStr ''invalid token'')]"
  have url: "fst (resolve_url (API_BASE_URL @ ACCOUNTS) ?kw) = API_BASE_URL @ ACCOUNTS"
    by (simp add: resolve_url_def API_BASE_URL_def startswith_def)
  have s: "server rejecting_env (http_log (snd (self, w))
             @ [Request ''get'' (fst (resolve_url (API_BASE_URL @ ACCOUNTS) ?kw)) (params ?kw) (json ?kw)])
           = Body (PDict ?d)"
    by (simp add: rejecting_env_def)
  have "priv_request rejecting_env (self, w) ''get'' (API_BASE_URL @ ACCOUNTS) False ?kw =
          priv_handle_result rejecting_env
            (self, w\<lparr>http_log := http_log w @ [Request ''get'' (API_BASE_URL @ ACCOUNTS) (Some (PDict p)) None]\<rparr>)
            (PDict ?d) ''get'' (API_BASE_URL @ ACCOUNTS) None False (?kw\<lparr>result_processor := None\<rparr>)"
    using request_sent[where kw="?kw" and p=p and E=rejecting_env and st="(self, w)" and m="''get''"
                         and u="API_BASE_URL @ ACCOUNTS" and d="?d" and a=False]
          that s url
    by (simp add: example_kwargs_def)
  also have "\<dots> = (Inl (AttributeError ''request''),
        (self, w\<lparr>http_log := http_log w
                    @ [Request ''get'' (API_BASE_URL @ ACCOUNTS) (Some (PDict p)) None]\<rparr>))"
    by (rule handle_result_raise[where c="PInt 4010" and n=4010]) simp_all
  finally show ?thesis .
qed

lemma rejecting_handle_result:
  "priv_handle_result rejecting_env
       (example_client\<lparr>session := MemoryStorage [(''app_bob_access_token'', PStr ''T1'')],
                       expires_at := Some 5000\<rparr>, w)
       (PDict [(''code'', PInt 4010), (''msg'', PStr ''invalid token'')])
       ''get'' (API_BASE_URL @ ACCOUNTS) None True example_kwargs
     = (Inl (AttributeError ''request''),
        (example_client\<lparr>session := MemoryStorage [(''app_bob_access_token'', PStr ''T2'')],
                        expires_at := Some 8200\<rparr>,
         w\<lparr>http_log := http_log w @
              [TokenGet (API_BASE_URL @ GET_ACCESS_TOKEN) (credentials example_client),
               Request ''get'' (API_BASE_URL @ ACCOUNTS)
                 (Some (PDict [(''sid'', PStr ''A''), (''dbId'', PStr ''B''), (''access_token'', PStr ''T2'')]))
                 None],
            ticks := Suc (ticks w)\<rparr>))"
proof -
  let ?mem = "[(''app_bob_access_token'', PStr ''T1'')]"
  let ?self = "example_client\<lparr>session := MemoryStorage ?mem, expires_at := Some 5000\<rparr>"
  let ?after = "example_client\<lparr>session := MemoryStorage [(''app_bob_access_token'', PStr ''T2'')],
                        expires_at := Some 8200\<rparr>"
  let ?wa = "w\<lparr>http_log := http_log w @ [TokenGet (API_BASE_URL @ GET_ACCESS_TOKEN) (credentials example_client)],
               ticks := Suc (ticks w)\<rparr>"
  let ?d = "[(''code'', PInt 4010), (''msg'', PStr ''invalid token'')]"
  let ?p = "[(''sid'', PStr ''A''), (''dbId'', PStr ''B''), (''access_token'', PStr ''T1'')]"
  let ?q = "[(''sid'', PStr ''A''), (''dbId'', PStr ''B''), (''access_token'', PStr ''T2'')]"
  have f: "fetch_access_token rejecting_env (?self, w) = (Inr PNone, (?after, ?wa))"
    using example_fetch[where E=rejecting_env and d="?mem" and e="Some 5000" and w=w] by simp
  have g: "storage_get rejecting_env (session (fst (?after, ?wa))) (access_token_key (fst (?after, ?wa))) PNone
             = Inr (PStr ''T2'')"
    by (simp add: example_token_key MemoryStorage_get_def)
  have "priv_handle_result rejecting_env (?self, w) (PDict ?d) ''get'' (API_BASE_URL @ ACCOUNTS) None True
          example_kwargs
        = priv_request rejecting_env (?after, ?wa) ''get'' (API_BASE_URL @ ACCOUNTS) False
            (example_kwargs\<lparr>params := Some (PDict (AList.update ''access_token'' (PStr ''T2'') ?p)),
                            result_processor := None\<rparr>)"
    by (rule handle_result_retry[where c="PInt 4010" and p="?p", OF _ _ _ f g])
       (simp_all add: example_client_def example_kwargs_def)
  also have "\<dots> = priv_request rejecting_env (?after, ?wa) ''get'' (API_BASE_URL @ ACCOUNTS) False
            (example_kwargs\<lparr>params := Some (PDict ?q)\<rparr>)"
    by (simp add: example_kwargs_def)
  also have "\<dots> = (Inl (AttributeError ''request''),
        (?after, ?wa\<lparr>http_log := http_log ?wa
                    @ [Request ''get'' (API_BASE_URL @ ACCOUNTS) (Some (PDict ?q)) None]\<rparr>))"
    by (rule rejecting_request_no_retry) simp
  finally show ?thesis by simp
qed

lemma rejecting_run:
  "priv_request rejecting_env
       (example_client\<lparr>session := MemoryStorage [(''app_bob_access_token'', PStr ''T1'')],
                       expires_at := Some 5000\<rparr>, example_world)
       ''get'' ACCOUNTS True example_kwargs
     = (Inl (AttributeError ''request''),
        (example_client\<lparr>session := MemoryStorage [(''app_bob_access_token'', PStr ''T2'')],
                        expires_at := Some 8200\<rparr>,
         \<lparr>http_log =
              [Request ''get'' (API_BASE_URL @ ACCOUNTS)
                 (Some (PDict [(''sid'', PStr ''A''), (''dbId'', PStr ''B''), (''access_token'', PStr ''T1'')]))
                 None,
               TokenGet (API_BASE_URL @ GET_ACCESS_TOKEN) (credentials example_client),
               Request ''get'' (API_BASE_URL @ ACCOUNTS)
                 (Some (PDict [(''sid'', PStr ''A''), (''dbId'', PStr ''B''), (''access_token'', PStr ''T2'')]))
                 None],
          ticks = 1\<rparr>))"
proof -
  let ?self = "example_client\<lparr>session := MemoryStorage [(''app_bob_access_token'', PStr ''T1'')],
                       expires_at := Some 5000\<rparr>"
  let ?d = "[(''code'', PInt 4010), (''msg'', PStr ''invalid token'')]"
  let ?p = "[(''sid'', PStr ''A''), (''dbId'', PStr ''B''), (''access_token'', PStr ''T1'')]"
  have url: "fst (resolve_url ACCOUNTS example_kwargs) = API_BASE_URL @ ACCOUNTS"
    by (simp add: resolve_url_def ACCOUNTS_def startswith_def example_kwargs_def)
  have s: "server rejecting_env (http_log (snd (?self, example_world))
             @ [Request ''get'' (fst (resolve_url ACCOUNTS example_kwargs)) (params example_kwargs)
                  (json example_kwargs)])
           = Body (PDict ?d)"
    by (simp add: rejecting_env_def)
  have "priv_request rejecting_env (?self, example_world) ''get'' ACCOUNTS True example_kwargs =
          priv_handle_result rejecting_env
            (?self, example_world\<lparr>http_log := http_log example_world
                       @ [Request ''get'' (API_BASE_URL @ ACCOUNTS) (Some (PDict ?p)) None]\<rparr>)
            (PDict ?d) ''get'' (API_BASE_URL @ ACCOUNTS) None True example_kwargs"
    using request_sent[where kw=example_kwargs and p="?p" and E=rejecting_env and st="(?self, example_world)"
                         and m="''get''" and u=ACCOUNTS and d="?d" and a=True]
          s url
    by (simp add: example_kwargs_def)
  then show ?thesis
    by (simp add: rejecting_handle_result example_world_def)
qed



section \<open>The retry\<close>



text \<open>When the forced fetch raises, its exception is the result and the request is not sent
  again.\<close>

lemma handle_result_fetch_raises:
  assumes "map_of d ''code'' = Some c" and "py_int c = Inr 4010" and "auto_retry (fst st)"
      and "fetch_access_token E st = (Inl e, st1)"
  shows "priv_handle_result E st (PDict d) m u rp True kw = (Inl e, st1)"
  using assms
  by (simp add: priv_handle_result.simps ebind_def update_conv' INVALID_CREDENTIAL_def)

text \<open>
  C2. What the code does where the claim expects \<^verbatim>\<open>JDYClientException(errcode, errmsg)\<close>:
  for a response dict whose \<^verbatim>\<open>code\<close> parses to a non-zero integer, when the retry does
  not apply, \<^verbatim>\<open>_handle_result\<close> ends in \<^verbatim>\<open>AttributeError\<close>. The argument
  \<^verbatim>\<open>request=res.request\<close> of the \<^verbatim>\<open>raise\<close> is evaluated first, and \<^verbatim>\<open>res\<close> is the dict that
  \<^verbatim>\<open>Response.json()\<close> returned, which has no such attribute.
\<close>

theorem C2_error_branch_raises_AttributeError:
  "map_of d ''code'' = Some c \<and> py_int c = Inr n \<and> n \<noteq> 0
     \<and> \<not> (auto_retry (fst st) \<and> a \<and> n = 4010) \<longrightarrow>
   priv_handle_result E st (PDict d) m u rp a kw = (Inl (AttributeError ''request''), st)"
  using handle_result_raise[of d c n st a E m u rp kw] by blast

theorem C2_error_branch_raises_AttributeError_witness:
  "priv_handle_result example_env (example_client, example_world)
       (PDict [(''code'', PInt 500), (''msg'', PStr ''boom'')])
       ''get'' (API_BASE_URL @ ACCOUNTS) None True example_kwargs
     = (Inl (AttributeError ''request''), (example_client, example_world))
   \<and> fst (priv_request rejecting_env
       (example_client\<lparr>session := MemoryStorage [(''app_bob_access_token'', PStr ''T1'')],
                       expires_at := Some 5000\<rparr>, example_world)
       ''get'' ACCOUNTS True example_kwargs)
     = Inl (AttributeError ''request'')"
proof -
  let ?d = "[(''code'', PInt 500), (''msg'', PStr ''boom'')]"
  have pre: "map_of ?d ''code'' = Some (PInt 500) \<and> py_int (PInt 500) = Inr 500 \<and> (500::int) \<noteq> 0
     \<and> \<not> (auto_retry (fst (example_client, example_world)) \<and> True \<and> (500::int) = 4010)"
    by simp
  have 1: "priv_handle_result example_env (example_client, example_world) (PDict ?d)
       ''get'' (API_BASE_URL @ ACCOUNTS) None True example_kwargs
     = (Inl (AttributeError ''request''), (example_client, example_world))"
    using C2_error_branch_raises_AttributeError[where d="?d" and c="PInt 500" and n=500
            and st="(example_client, example_world)" and a=True] pre
    by blast
  show ?thesis using 1 by (simp add: rejecting_run)
qed

end
